theory Spec2Isabelle
  imports Main "HOL-Library.Word"
begin

section \<open>Data model\<close>

text \<open>
  A Go \<open>error\<close> is modelled by its text (\<open>err.Error()\<close>); \<open>nil\<close> is \<open>None\<close>, or the
  \<open>Inr\<close> side of a sum when the call also returns a value.

  A Go \<open>interface{}\<close> value, as it occurs in assertion headers and in a YAML document.
  \<open>nil\<close> is the absence of a value in a map lookup. Every constructor but \<open>IString\<close>
  makes the type assertion \<open>.(string)\<close> panic.
\<close>

datatype iface =
    IString string
  | IInt int
  | IBool bool
  | IList "iface list"
  | IMap "(string \<times> iface) list"

type_synonym headers = "string \<rightharpoonup> iface"

text \<open>\<open>asserts.Assertion\<close>: what the handlers read of a decoded assertion.\<close>

record Assertion =
  TypeName :: string
  Headers :: headers
  Body :: string
  SignKeyID :: string
  Content :: string
  Signature :: string

text \<open>\<open>HeaderString\<close> of the assertion library: the header when it is a string, else \<open>""\<close>.\<close>

definition HeaderString :: "Assertion \<Rightarrow> string \<Rightarrow> string" where
  "HeaderString a name = (case Headers a name of Some (IString s) \<Rightarrow> s | _ \<Rightarrow> [])"

text \<open>The assertion type names and HTTP status codes that the handlers refer to.\<close>

definition SerialRequestType :: string where "SerialRequestType = ''serial-request''"
definition ModelType :: string where "ModelType = ''model''"
definition SerialType :: string where "SerialType = ''serial''"
definition StatusBadRequest :: int where "StatusBadRequest = 400"
definition StatusOK :: int where "StatusOK = 200"

text \<open>\<open>response.ErrorResponse\<close>, with the fields the handlers set and read.\<close>

record ErrorResponse =
  Success :: bool
  Code :: string
  Message :: string
  StatusCode :: int

text \<open>
  The error values of package \<open>response\<close> are package-level variables declared outside
  the handlers; the handlers read them by name. The model takes their values as a
  parameter (\<open>response\<close> in the environment below).
\<close>

datatype errname =
    ErrorInvalidAPIKey
  | ErrorEmptyData
  | ErrorInvalidAssertion
  | ErrorInvalidType
  | ErrorInvalidSecondType
  | ErrorInvalidNonce
  | ErrorInvalidModel
  | ErrorInvalidModelSubstore
  | ErrorInactiveModel
  | ErrorEmptySerial
  | ErrorDuplicateAssertion
  | ErrorCreateAssertion
  | ErrorGenerateNonce

text \<open>
  \<open>datastore.Model\<close> and \<open>datastore.Substore\<close>. The handlers read \<open>KeyActive\<close>,
  \<open>AuthorityID\<close>, \<open>KeyID\<close>, \<open>SealedKey\<close>, \<open>APIKey\<close> and \<open>FromModel\<close>.
  Modelled from the spec: the remaining fields (\<open>BrandID\<close>, \<open>Name\<close>, and the
  sub-store's \<open>Store\<close> and \<open>ModelName\<close> override), whose declarations are in package
  \<open>datastore\<close>.
\<close>

record Model =
  BrandID :: string
  Name :: string
  APIKey :: string
  AuthorityID :: string
  KeyID :: string
  SealedKey :: string
  KeyActive :: bool

record Substore =
  FromModel :: Model
  Store :: string
  ModelName :: string

text \<open>\<open>datastore.SigningLog\<close>; \<open>Revision\<close> is a Go \<open>int\<close> (64 bits, \<open>+\<close> wraps).\<close>

record SigningLog =
  ID :: int
  Make :: string
  Model :: string
  SerialNumber :: string
  Fingerprint :: string
  Revision :: "64 word"

record DeviceNonce =
  Nonce :: string

text \<open>The result of one \<open>dec.Decode()\<close> call: \<open>io.EOF\<close>, another error, or an assertion.\<close>

datatype decoded = EOF | DecodeError string | Decoded Assertion

text \<open>\<open>http.Request\<close>: its headers and its body.\<close>

record Request =
  ReqHeader :: "string \<rightharpoonup> string"
  ReqBody :: string

text \<open>A Go call either returns or panics.\<close>

datatype 'a go = Return 'a | Panic

section \<open>Environment and effects\<close>

text \<open>
  The handlers work on \<open>datastore.Environ\<close> (the database and the keystore), on the
  assertion, YAML and HTTP libraries and on the clock. None of these is part of the
  handlers: each call is a parameter giving what the call returns. A handler calls each
  of them at most once per request, so a function of the arguments covers every
  behaviour of the collaborator.
\<close>

record env =
  response :: "errname \<Rightarrow> ErrorResponse"
  JSONHeader :: string
  MediaType :: string
  CheckModelAPI :: "Request \<Rightarrow> string + string"
  Decode :: "Request \<Rightarrow> nat \<Rightarrow> decoded"
  DeleteExpiredDeviceNonces :: "string option"
  CreateDeviceNonce :: "string + DeviceNonce"
  ValidateDeviceNonce :: "string \<Rightarrow> string option"
  FindModel :: "string \<Rightarrow> string \<Rightarrow> string \<Rightarrow> Model \<times> string option"
  GetSubstoreModel :: "string \<Rightarrow> string \<Rightarrow> string \<Rightarrow> string + Substore"
  CheckForDuplicate :: "SigningLog \<Rightarrow> string + (bool \<times> 64 word)"
  CreateSigningLog :: "SigningLog \<Rightarrow> string option"
  SignAssertion :: "string \<Rightarrow> headers \<Rightarrow> string \<Rightarrow> string \<Rightarrow> string \<Rightarrow> string \<Rightarrow> string + Assertion"
  Assemble :: "headers \<Rightarrow> string \<Rightarrow> string \<Rightarrow> string \<Rightarrow> string + Assertion"
  yamlUnmarshal :: "string \<Rightarrow> headers"
  Now :: string
  Encode :: "Assertion \<Rightarrow> string option"

text \<open>
  What a handler does to the outside, in the order it does it: log lines, writes to the
  \<open>http.ResponseWriter\<close>, and the calls on the database, the keystore and the
  assertion library with their arguments.
\<close>

datatype effect =
    LogMessage string string string
  | SetHeader string string
  | WriteHeader int
  | WriteAssertion Assertion
  | WriteRequestID bool string
  | BodyClose
  | CallDeleteExpiredDeviceNonces
  | CallCreateDeviceNonce
  | CallValidateDeviceNonce string
  | CallFindModel string string string
  | CallGetSubstoreModel string string string
  | CallCheckForDuplicate SigningLog
  | CallCreateSigningLog SigningLog
  | CallSignAssertion string headers string string string string
  | CallAssemble headers string string string

section \<open>The signing handlers\<close>

text \<open>\<open>fmt.Sprintf("%d", n)\<close> for a Go \<open>int\<close>.\<close>

definition digit_char :: "nat \<Rightarrow> char" where
  "digit_char d = ''0123456789'' ! d"

function decimal :: "nat \<Rightarrow> string" where
  "decimal n = (if n < 10 then [digit_char n] else decimal (n div 10) @ [digit_char (n mod 10)])"
  by pat_completeness auto
termination
  by (relation "measure id") auto

declare decimal.simps [simp del]

definition Sprintf_d :: "64 word \<Rightarrow> string" where
  "Sprintf_d w = (if sint w < 0 then CHR ''-'' # decimal (nat (- sint w)) else decimal (nat (sint w)))"

definition formatRequestIDResponse :: "env \<Rightarrow> DeviceNonce \<Rightarrow> effect list" where
  "formatRequestIDResponse e nonce = [WriteRequestID True (Nonce nonce)]"

definition formatSignResponse :: "env \<Rightarrow> Assertion \<Rightarrow> effect list" where
  "formatSignResponse e assertion =
     [SetHeader ''Content-Type'' (MediaType e), WriteHeader StatusOK, WriteAssertion assertion] @
     (case Encode e assertion of
        Some err \<Rightarrow> [LogMessage ''SIGN'' ''error-encode-assertion'' ''Error encoding the assertion.'']
      | None \<Rightarrow> [])"

definition RequestID :: "env \<Rightarrow> Request \<Rightarrow> ErrorResponse \<times> effect list" where
  "RequestID e r =
     (let t0 = [SetHeader ''Content-Type'' (JSONHeader e)] in
      case CheckModelAPI e r of
        Inl err \<Rightarrow>
          (response e ErrorInvalidAPIKey,
           t0 @ [LogMessage ''REQUESTID'' (Code (response e ErrorInvalidAPIKey))
                   (Message (response e ErrorInvalidAPIKey))])
      | Inr apiKey \<Rightarrow>
          (case DeleteExpiredDeviceNonces e of
             Some err \<Rightarrow>
               (response e ErrorGenerateNonce,
                t0 @ [CallDeleteExpiredDeviceNonces,
                      LogMessage ''REQUESTID'' ''delete-expired-nonces'' err])
           | None \<Rightarrow>
               (case CreateDeviceNonce e of
                  Inl err \<Rightarrow>
                    (response e ErrorGenerateNonce,
                     t0 @ [CallDeleteExpiredDeviceNonces, CallCreateDeviceNonce,
                           LogMessage ''REQUESTID'' ''generate-request-id'' err])
                | Inr nonce \<Rightarrow>
                    (\<lparr>Success = True, Code = [], Message = [], StatusCode = 0\<rparr>,
                     t0 @ [CallDeleteExpiredDeviceNonces, CallCreateDeviceNonce] @
                     formatRequestIDResponse e nonce))))"

text \<open>
  \<open>findModel\<close>. \<open>FindModel\<close> returns a model together with its error, as the Go
  call does: after a failed direct lookup and a failed sub-store lookup the handler
  returns that model value beside the error response.
\<close>

definition findModel :: "env \<Rightarrow> Assertion \<Rightarrow> string \<Rightarrow> Model \<times> ErrorResponse \<times> effect list" where
  "findModel e assertion apiKey =
     (let brand = HeaderString assertion ''brand-id'';
          mdl = HeaderString assertion ''model'';
          t0 = [CallFindModel brand mdl apiKey] in
      case FindModel e brand mdl apiKey of
        (model, None) \<Rightarrow>
          (model, \<lparr>Success = True, Code = [], Message = [], StatusCode = 0\<rparr>, t0)
      | (model, Some err) \<Rightarrow>
          (let t1 = t0 @ [LogMessage ''SIGN'' (Code (response e ErrorInvalidModel))
                            (Message (response e ErrorInvalidModel)),
                          CallGetSubstoreModel brand mdl (HeaderString assertion ''serial'')] in
           case GetSubstoreModel e brand mdl (HeaderString assertion ''serial'') of
             Inl err2 \<Rightarrow>
               (model, response e ErrorInvalidModelSubstore,
                t1 @ [LogMessage ''CHECK'' (Code (response e ErrorInvalidModelSubstore))
                        (Message (response e ErrorInvalidModelSubstore))])
           | Inr substore \<Rightarrow>
               (if APIKey (FromModel substore) \<noteq> apiKey
                then (FromModel substore, response e ErrorInvalidModelSubstore, t1)
                else (FromModel substore,
                      \<lparr>Success = True, Code = [], Message = [], StatusCode = 0\<rparr>, t1))))"

text \<open>
  \<open>serialRequestToSerial\<close>; \<open>serialHeaders\<close> is the map literal it starts from, built
  from the headers of the serial-request. It writes the serial number and the revision through its
  \<open>signingLog\<close> pointer; the model returns the updated log beside the result. The two
  type assertions \<open>.(string)\<close> panic on a value that is not a string. A header that the
  request does not have is stored as \<open>nil\<close>, which a lookup cannot tell from a missing
  key: the model leaves the key out.
\<close>

definition serialHeaders :: "env \<Rightarrow> Assertion \<Rightarrow> headers" where
  "serialHeaders e assertion =
     (\<lambda>k. None)
       (''type'' \<mapsto> IString SerialType,
        ''authority-id'' := Headers assertion ''brand-id'',
        ''brand-id'' := Headers assertion ''brand-id'',
        ''serial'' := Headers assertion ''serial'',
        ''device-key'' := Headers assertion ''device-key'',
        ''sign-key-sha3-384'' := Headers assertion ''sign-key-sha3-384'',
        ''device-key-sha3-384'' := Headers assertion ''sign-key-sha3-384'',
        ''model'' := Headers assertion ''model'',
        ''timestamp'' \<mapsto> IString (Now e))"

definition serialRequestToSerial ::
  "env \<Rightarrow> Assertion \<Rightarrow> SigningLog \<Rightarrow> (string + Assertion) go \<times> SigningLog \<times> effect list" where
  "serialRequestToSerial e assertion signingLog =
     (let headers0 = serialHeaders e assertion;
          fallback = headers0(''serial'' := yamlUnmarshal e (Body assertion) ''serial'')
      in
      case (case headers0 ''serial'' of
              None \<Rightarrow> Return fallback
            | Some (IString s) \<Rightarrow> Return (if s = [] then fallback else headers0)
            | Some _ \<Rightarrow> Panic) of
        Panic \<Rightarrow> (Panic, signingLog, [])
      | Return headers1 \<Rightarrow>
          (case headers1 ''serial'' of
             None \<Rightarrow>
               (Return (Inl (Message (response e ErrorEmptySerial))), signingLog,
                [LogMessage ''SIGN'' ''create-assertion'' (Message (response e ErrorEmptySerial))])
           | Some (IString serial) \<Rightarrow>
               (let signingLog1 = signingLog\<lparr>SerialNumber := serial\<rparr>;
                    t0 = [CallCheckForDuplicate signingLog1] in
                case CheckForDuplicate e signingLog1 of
                  Inl err \<Rightarrow>
                    (Return (Inl (Message (response e ErrorDuplicateAssertion))), signingLog1,
                     t0 @ [LogMessage ''SIGN'' ''duplicate-assertion'' err])
                | Inr (duplicateExists, maxRevision) \<Rightarrow>
                    (let t1 = t0 @
                           (if duplicateExists
                            then [LogMessage ''SIGN'' ''duplicate-assertion''
                                    ''The serial number and/or device-key have already been used to sign a device'']
                            else []);
                         signingLog2 = signingLog1\<lparr>Revision := maxRevision + 1\<rparr>;
                         headers2 = headers1(''revision'' \<mapsto> IString (Sprintf_d (Revision signingLog2)));
                         headers3 = (if length (Body assertion) > 0
                                     then headers2(''body-length'' := Headers assertion ''body-length'')
                                     else headers2)
                     in (Return (Assemble e headers3 (Body assertion) (Content assertion) (Signature assertion)),
                         signingLog2,
                         t1 @ [CallAssemble headers3 (Body assertion) (Content assertion) (Signature assertion)])))
           | Some _ \<Rightarrow> (Panic, signingLog, [])))"

text \<open>
  A handler is a sequence of steps, each of which either makes the handler return (a
  response, or a panic) or goes on with a value; the effects of the steps are
  concatenated in order. \<open>andThen\<close> is the sequencing of two statements, \<open>returns\<close> a
  \<open>return\<close> statement, \<open>goOn\<close> a step that falls through, and \<open>deferred\<close> a
  \<open>defer\<close>: its effects run when the enclosing function leaves, however it leaves.
\<close>

type_synonym ('r, 'a) step = "('r go + 'a) \<times> effect list"

definition returns :: "'r \<Rightarrow> effect list \<Rightarrow> ('r, 'a) step" where
  "returns resp t = (Inl (Return resp), t)"

definition goOn :: "'a \<Rightarrow> effect list \<Rightarrow> ('r, 'a) step" where
  "goOn x t = (Inr x, t)"

definition andThen :: "('r, 'a) step \<Rightarrow> ('a \<Rightarrow> ('r, 'b) step) \<Rightarrow> ('r, 'b) step" where
  "andThen m f =
     (case m of
        (Inl r, t) \<Rightarrow> (Inl r, t)
      | (Inr x, t) \<Rightarrow> (case f x of (y, t') \<Rightarrow> (y, t @ t')))"

definition deferred :: "effect list \<Rightarrow> ('r, 'a) step \<Rightarrow> ('r, 'a) step" where
  "deferred d m = (case m of (y, t) \<Rightarrow> (y, t @ d))"

definition leave :: "('r, 'r) step \<Rightarrow> 'r go \<times> effect list" where
  "leave m = (case m of (Inl r, t) \<Rightarrow> (r, t) | (Inr x, t) \<Rightarrow> (Return x, t))"

text \<open>
  \<open>Serial\<close>. The three \<open>dec.Decode()\<close> calls are \<open>Decode e r 0\<close>, \<open>1\<close> and \<open>2\<close>.
  The deferred \<open>r.Body.Close()\<close> runs last on every path after the API key check,
  also when the conversion panics.
\<close>

definition Serial :: "env \<Rightarrow> Request \<Rightarrow> ErrorResponse go \<times> effect list" where
  "Serial e r = leave (
     andThen
       (case CheckModelAPI e r of
          Inl err \<Rightarrow>
            returns (response e ErrorInvalidAPIKey)
              [LogMessage ''SIGN'' (Code (response e ErrorInvalidAPIKey))
                 (Message (response e ErrorInvalidAPIKey))]
        | Inr apiKey \<Rightarrow> goOn apiKey [])
     (\<lambda>apiKey. deferred [BodyClose] (
     andThen
       (case Decode e r 0 of
          EOF \<Rightarrow>
            returns (response e ErrorEmptyData)
              [LogMessage ''SIGN'' ''invalid-assertion'' (Message (response e ErrorEmptyData))]
        | DecodeError err \<Rightarrow>
            returns \<lparr>Success = False, Code = Code (response e ErrorInvalidAssertion),
                     Message = err, StatusCode = StatusBadRequest\<rparr>
              [LogMessage ''SIGN'' ''invalid-assertion'' err]
        | Decoded assertion \<Rightarrow> goOn assertion [])
     (\<lambda>assertion.
     andThen
       (case Decode e r 1 of
          DecodeError err \<Rightarrow>
            returns \<lparr>Success = False, Code = Code (response e ErrorInvalidAssertion),
                     Message = err, StatusCode = StatusBadRequest\<rparr>
              [LogMessage ''SIGN'' ''invalid-assertion'' err]
        | EOF \<Rightarrow> goOn None []
        | Decoded m \<Rightarrow> goOn (Some m) [])
     (\<lambda>modelAssert.
     andThen
       (case (case Decode e r 2 of
                EOF \<Rightarrow> None
              | DecodeError err \<Rightarrow> Some err
              | Decoded x \<Rightarrow> Some ''unexpected assertion in the request stream'') of
          Some err \<Rightarrow>
            returns \<lparr>Success = False, Code = Code (response e ErrorInvalidAssertion),
                     Message = err, StatusCode = StatusBadRequest\<rparr>
              [LogMessage ''SIGN'' (Code (response e ErrorInvalidAssertion)) err]
        | None \<Rightarrow> goOn () [])
     (\<lambda>_.
     andThen
       (if TypeName assertion \<noteq> SerialRequestType
        then returns (response e ErrorInvalidType)
               [LogMessage ''SIGN'' (Code (response e ErrorInvalidType))
                  (''The assertion type must be 'serial-request'' @ [CHR 0x27])]
        else goOn () [])
     (\<lambda>_.
     andThen
       (case modelAssert of
          None \<Rightarrow> goOn () []
        | Some m \<Rightarrow>
            if TypeName m \<noteq> ModelType
            then returns (response e ErrorInvalidSecondType)
                   [LogMessage ''SIGN'' (Code (response e ErrorInvalidSecondType))
                      (Message (response e ErrorInvalidSecondType))]
            else if HeaderString m ''brand-id'' \<noteq> HeaderString assertion ''brand-id''
                    \<or> HeaderString m ''model'' \<noteq> HeaderString assertion ''model''
            then returns \<lparr>Success = False, Code = ''mismatched-model'',
                          Message = ''Model and serial-request assertion do not match'',
                          StatusCode = StatusBadRequest\<rparr>
                   [LogMessage ''SIGN'' ''mismatched-model''
                      ''Model and serial-request assertion do not match'']
            else goOn () [])
     (\<lambda>_.
     andThen
       (case ValidateDeviceNonce e (HeaderString assertion ''request-id'') of
          Some err \<Rightarrow>
            returns (response e ErrorInvalidNonce)
              [CallValidateDeviceNonce (HeaderString assertion ''request-id''),
               LogMessage ''SIGN'' (Code (response e ErrorInvalidNonce))
                 (Message (response e ErrorInvalidNonce))]
        | None \<Rightarrow> goOn () [CallValidateDeviceNonce (HeaderString assertion ''request-id'')])
     (\<lambda>_.
     andThen
       (case findModel e assertion apiKey of
          (model, errResponse, t) \<Rightarrow>
            if \<not> Success errResponse then returns errResponse t else goOn model t)
     (\<lambda>model.
     andThen
       (if \<not> KeyActive model
        then returns (response e ErrorInactiveModel)
               [LogMessage ''SIGN'' (Code (response e ErrorInactiveModel))
                  (Message (response e ErrorInactiveModel))]
        else goOn \<lparr>ID = 0, Make = HeaderString assertion ''brand-id'',
                    Model = HeaderString assertion ''model'', SerialNumber = [],
                    Fingerprint = SignKeyID assertion, Revision = 0\<rparr> [])
     (\<lambda>signingLog0.
     andThen
       (case serialRequestToSerial e assertion signingLog0 of
          (Panic, signingLog, t) \<Rightarrow> (Inl Panic, t)
        | (Return (Inl err), signingLog, t) \<Rightarrow>
            returns (response e ErrorCreateAssertion)
              (t @ [LogMessage ''SIGN'' (Code (response e ErrorCreateAssertion)) err])
        | (Return (Inr serialAssertion), signingLog, t) \<Rightarrow> goOn (serialAssertion, signingLog) t)
     (\<lambda>(serialAssertion, signingLog).
     andThen
       (case SignAssertion e SerialType (Headers serialAssertion) (Body serialAssertion)
               (AuthorityID model) (KeyID model) (SealedKey model) of
          Inl err \<Rightarrow>
            returns \<lparr>Success = False, Code = ''signing-assertion'', Message = err,
                     StatusCode = StatusBadRequest\<rparr>
              [CallSignAssertion SerialType (Headers serialAssertion) (Body serialAssertion)
                 (AuthorityID model) (KeyID model) (SealedKey model),
               LogMessage ''SIGN'' ''signing-assertion'' err]
        | Inr signedAssertion \<Rightarrow>
            goOn signedAssertion
              [CallSignAssertion SerialType (Headers serialAssertion) (Body serialAssertion)
                 (AuthorityID model) (KeyID model) (SealedKey model)])
     (\<lambda>signedAssertion.
     andThen
       (case CreateSigningLog e signingLog of
          Some err \<Rightarrow>
            returns \<lparr>Success = False, Code = ''logging-assertion'', Message = err,
                     StatusCode = StatusBadRequest\<rparr>
              [CallCreateSigningLog signingLog, LogMessage ''SIGN'' ''logging-assertion'' err]
        | None \<Rightarrow> goOn () [CallCreateSigningLog signingLog])
     (\<lambda>_.
       returns \<lparr>Success = True, Code = [], Message = [], StatusCode = 0\<rparr>
         (formatSignResponse e signedAssertion)))))))))))))))"

text \<open>
  The tail of \<open>Serial\<close> cut at four places, in the order of the source: the type
  checks, the nonce check and model resolution, the conversion, and signing with
  persisting. They are the same terms as in \<open>Serial\<close> (\<open>Serial_unfold\<close> below) and
  serve to state facts about the stages one at a time.
\<close>

definition Serial_sign :: "env \<Rightarrow> Model \<Rightarrow> Assertion \<Rightarrow> SigningLog \<Rightarrow> (ErrorResponse, ErrorResponse) step" where
  "Serial_sign e model serialAssertion signingLog =
     andThen
       (case SignAssertion e SerialType (Headers serialAssertion) (Body serialAssertion)
               (AuthorityID model) (KeyID model) (SealedKey model) of
          Inl err \<Rightarrow>
            returns \<lparr>Success = False, Code = ''signing-assertion'', Message = err,
                     StatusCode = StatusBadRequest\<rparr>
              [CallSignAssertion SerialType (Headers serialAssertion) (Body serialAssertion)
                 (AuthorityID model) (KeyID model) (SealedKey model),
               LogMessage ''SIGN'' ''signing-assertion'' err]
        | Inr signedAssertion \<Rightarrow>
            goOn signedAssertion
              [CallSignAssertion SerialType (Headers serialAssertion) (Body serialAssertion)
                 (AuthorityID model) (KeyID model) (SealedKey model)])
     (\<lambda>signedAssertion.
     andThen
       (case CreateSigningLog e signingLog of
          Some err \<Rightarrow>
            returns \<lparr>Success = False, Code = ''logging-assertion'', Message = err,
                     StatusCode = StatusBadRequest\<rparr>
              [CallCreateSigningLog signingLog, LogMessage ''SIGN'' ''logging-assertion'' err]
        | None \<Rightarrow> goOn () [CallCreateSigningLog signingLog])
     (\<lambda>_.
       returns \<lparr>Success = True, Code = [], Message = [], StatusCode = 0\<rparr>
         (formatSignResponse e signedAssertion)))"

definition Serial_convert :: "env \<Rightarrow> Assertion \<Rightarrow> Model \<Rightarrow> SigningLog \<Rightarrow> (ErrorResponse, ErrorResponse) step" where
  "Serial_convert e assertion model signingLog0 =
     andThen
       (case serialRequestToSerial e assertion signingLog0 of
          (Panic, signingLog, t) \<Rightarrow> (Inl Panic, t)
        | (Return (Inl err), signingLog, t) \<Rightarrow>
            returns (response e ErrorCreateAssertion)
              (t @ [LogMessage ''SIGN'' (Code (response e ErrorCreateAssertion)) err])
        | (Return (Inr serialAssertion), signingLog, t) \<Rightarrow> goOn (serialAssertion, signingLog) t)
     (\<lambda>(serialAssertion, signingLog). Serial_sign e model serialAssertion signingLog)"

definition Serial_resolve :: "env \<Rightarrow> Assertion \<Rightarrow> string \<Rightarrow> (ErrorResponse, ErrorResponse) step" where
  "Serial_resolve e assertion apiKey =
     andThen
       (case ValidateDeviceNonce e (HeaderString assertion ''request-id'') of
          Some err \<Rightarrow>
            returns (response e ErrorInvalidNonce)
              [CallValidateDeviceNonce (HeaderString assertion ''request-id''),
               LogMessage ''SIGN'' (Code (response e ErrorInvalidNonce))
                 (Message (response e ErrorInvalidNonce))]
        | None \<Rightarrow> goOn () [CallValidateDeviceNonce (HeaderString assertion ''request-id'')])
     (\<lambda>_.
     andThen
       (case findModel e assertion apiKey of
          (model, errResponse, t) \<Rightarrow>
            if \<not> Success errResponse then returns errResponse t else goOn model t)
     (\<lambda>model.
     andThen
       (if \<not> KeyActive model
        then returns (response e ErrorInactiveModel)
               [LogMessage ''SIGN'' (Code (response e ErrorInactiveModel))
                  (Message (response e ErrorInactiveModel))]
        else goOn \<lparr>ID = 0, Make = HeaderString assertion ''brand-id'',
                    Model = HeaderString assertion ''model'', SerialNumber = [],
                    Fingerprint = SignKeyID assertion, Revision = 0\<rparr> [])
     (\<lambda>signingLog0. Serial_convert e assertion model signingLog0)))"

definition Serial_checks :: "env \<Rightarrow> Assertion \<Rightarrow> Assertion option \<Rightarrow> string \<Rightarrow> (ErrorResponse, ErrorResponse) step" where
  "Serial_checks e assertion modelAssert apiKey =
     andThen
       (if TypeName assertion \<noteq> SerialRequestType
        then returns (response e ErrorInvalidType)
               [LogMessage ''SIGN'' (Code (response e ErrorInvalidType))
                  (''The assertion type must be 'serial-request'' @ [CHR 0x27])]
        else goOn () [])
     (\<lambda>_.
     andThen
       (case modelAssert of
          None \<Rightarrow> goOn () []
        | Some m \<Rightarrow>
            if TypeName m \<noteq> ModelType
            then returns (response e ErrorInvalidSecondType)
                   [LogMessage ''SIGN'' (Code (response e ErrorInvalidSecondType))
                      (Message (response e ErrorInvalidSecondType))]
            else if HeaderString m ''brand-id'' \<noteq> HeaderString assertion ''brand-id''
                    \<or> HeaderString m ''model'' \<noteq> HeaderString assertion ''model''
            then returns \<lparr>Success = False, Code = ''mismatched-model'',
                          Message = ''Model and serial-request assertion do not match'',
                          StatusCode = StatusBadRequest\<rparr>
                   [LogMessage ''SIGN'' ''mismatched-model''
                      ''Model and serial-request assertion do not match'']
            else goOn () [])
     (\<lambda>_. Serial_resolve e assertion apiKey))"


section \<open>The replication client\<close>

text \<open>
  \<open>FactoryClient\<close> and the values the replication tasks pass around. Only the
  keypair's \<open>AuthorityID\<close>, \<open>KeyID\<close> and \<open>AuthKeyHash\<close> and the logs' \<open>ID\<close> are read
  by the tasks (the keypair fields carry a prefix here, the model has fields of the same
  names); an account is passed on unread.
\<close>

record FactoryClient =
  URL :: string
  Username :: string
  ClientAPIKey :: string

record Account =
  AccountAuthorityID :: string

record Keypair =
  KeypairAuthorityID :: string
  KeypairKeyID :: string
  KeypairSealedKey :: string
  AuthKeyHash :: string

record TestLog =
  TestLogID :: int

datatype Setting = Setting string string

text \<open>The decoded answer of a fetch: \<open>Success\<close>, \<open>ErrorMessage\<close> and the list of entries.\<close>

datatype 'a FetchResult = FetchResult (ResSuccess: bool) (ErrorMessage: string) (Entries: "'a list")

text \<open>
  The factory database as far as the tasks read back what they wrote: the keypairs, the
  settings, the signing-log rows with their synced flag, and the test-log rows.
\<close>

record factory =
  Keypairs :: "Keypair list"
  Settings :: "Setting list"
  SigningLogRows :: "(SigningLog \<times> bool) list"
  TestLogRows :: "TestLog list"

text \<open>
  What the upstream service, the network and the database answer during one run of a
  task. A \<open>Fails\<close> field is the error of a database call, \<open>None\<close> when it works. A task
  handles each entry of a list once per run, so the answer for an entry is a function of
  the entry.
\<close>

record sync_env =
  FetchAccounts :: "FactoryClient \<Rightarrow> string + Account FetchResult"
  SyncAccount :: "Account \<Rightarrow> string option"
  KeyStoreSecret :: string
  jsonMarshal :: "string \<Rightarrow> string + string"
  FetchSigningKeys :: "FactoryClient \<Rightarrow> string \<Rightarrow> string + Keypair FetchResult"
  LookupKeypairFails :: "string \<Rightarrow> string \<Rightarrow> string option"
  SyncKeypairFails :: "Keypair \<Rightarrow> string option"
  PutSettingFails :: "Setting \<Rightarrow> string option"
  GenerateAuthKey :: "string \<Rightarrow> string \<Rightarrow> string"
  FetchModels :: "FactoryClient \<Rightarrow> string + Model FetchResult"
  SyncModel :: "Model \<Rightarrow> string option"
  SyncSigningLogFails :: "string option"
  SendSigningLog :: "FactoryClient \<Rightarrow> SigningLog \<Rightarrow> bool \<times> string option"
  SyncUpdateSigningLogFails :: "int \<Rightarrow> string option"
  SyncListTestLogsFails :: "string option"
  SendTestLog :: "FactoryClient \<Rightarrow> TestLog \<Rightarrow> bool \<times> string option"
  SyncDeleteTestLogFails :: "int \<Rightarrow> string option"

text \<open>
  The effects of a task in order. A send records whether it succeeded (no error and
  \<open>success\<close> true), so that uploads can be counted over several runs.
\<close>

datatype sync_effect =
    LogErrorf string
  | CallFetchAccounts
  | CallSyncAccount Account
  | CallFetchSigningKeys string
  | CallGetKeypairByPublicID string string
  | CallSyncKeypair Keypair
  | CallPutSetting Setting
  | CallFetchModels
  | CallSyncModel Model
  | CallSyncSigningLog
  | CallSendSigningLog SigningLog bool
  | CallSyncUpdateSigningLog int
  | CallSyncListTestLogs
  | CallSendTestLog TestLog bool
  | CallSyncDeleteTestLog int

subsection \<open>The database calls of the tasks\<close>

text \<open>
  Modelled from the spec: the functions of package \<open>datastore\<close> that the push tasks and
  the key replication call, which are not among the sources. \<open>SyncSigningLog\<close> returns
  the signing logs that are not synced, \<open>SyncUpdateSigningLog\<close> marks the rows of an id
  as synced, \<open>SyncListTestLogs\<close> returns the test logs, \<open>SyncDeleteTestLog\<close> deletes
  the rows of an id, \<open>GetKeypairByPublicID\<close> finds a keypair by authority and key id,
  \<open>SyncKeypair\<close> inserts a keypair and \<open>PutSetting\<close> a setting row. A call that fails
  leaves the database as it was.
\<close>

definition SyncSigningLog :: "sync_env \<Rightarrow> factory \<Rightarrow> string + SigningLog list" where
  "SyncSigningLog e db =
     (case SyncSigningLogFails e of
        Some err \<Rightarrow> Inl err
      | None \<Rightarrow> Inr (map fst (filter (\<lambda>row. \<not> snd row) (SigningLogRows db))))"

definition SyncUpdateSigningLog :: "sync_env \<Rightarrow> int \<Rightarrow> factory \<Rightarrow> string option \<times> factory" where
  "SyncUpdateSigningLog e i db =
     (case SyncUpdateSigningLogFails e i of
        Some err \<Rightarrow> (Some err, db)
      | None \<Rightarrow>
          (None, db\<lparr>SigningLogRows :=
                      map (\<lambda>row. if ID (fst row) = i then (fst row, True) else row) (SigningLogRows db)\<rparr>))"

definition SyncListTestLogs :: "sync_env \<Rightarrow> factory \<Rightarrow> string + TestLog list" where
  "SyncListTestLogs e db =
     (case SyncListTestLogsFails e of Some err \<Rightarrow> Inl err | None \<Rightarrow> Inr (TestLogRows db))"

definition SyncDeleteTestLog :: "sync_env \<Rightarrow> int \<Rightarrow> factory \<Rightarrow> string option \<times> factory" where
  "SyncDeleteTestLog e i db =
     (case SyncDeleteTestLogFails e i of
        Some err \<Rightarrow> (Some err, db)
      | None \<Rightarrow> (None, db\<lparr>TestLogRows := filter (\<lambda>l. TestLogID l \<noteq> i) (TestLogRows db)\<rparr>))"

definition GetKeypairByPublicID :: "sync_env \<Rightarrow> factory \<Rightarrow> string \<Rightarrow> string \<Rightarrow> string + Keypair" where
  "GetKeypairByPublicID e db authorityID keyID =
     (case LookupKeypairFails e authorityID keyID of
        Some err \<Rightarrow> Inl err
      | None \<Rightarrow>
          (case find (\<lambda>k. KeypairAuthorityID k = authorityID \<and> KeypairKeyID k = keyID) (Keypairs db) of
             None \<Rightarrow> Inl ''sql: no rows in result set''
           | Some k \<Rightarrow> Inr k))"

definition SyncKeypair :: "sync_env \<Rightarrow> Keypair \<Rightarrow> factory \<Rightarrow> string option \<times> factory" where
  "SyncKeypair e k db =
     (case SyncKeypairFails e k of
        Some err \<Rightarrow> (Some err, db)
      | None \<Rightarrow> (None, db\<lparr>Keypairs := Keypairs db @ [k]\<rparr>))"

definition PutSetting :: "sync_env \<Rightarrow> Setting \<Rightarrow> factory \<Rightarrow> string option \<times> factory" where
  "PutSetting e s db =
     (case PutSettingFails e s of
        Some err \<Rightarrow> (Some err, db)
      | None \<Rightarrow> (None, db\<lparr>Settings := Settings db @ [s]\<rparr>))"

subsection \<open>The tasks\<close>

text \<open>
  Each task returns its error (\<open>None\<close> for \<open>nil\<close>) and its effects; the tasks that work
  on the modelled tables also return the database. The \<open>range\<close> loop of a task is the
  function with suffix \<open>_loop\<close>.
\<close>

fun Accounts_loop :: "sync_env \<Rightarrow> Account list \<Rightarrow> string option \<times> sync_effect list" where
  "Accounts_loop e [] = (None, [])"
| "Accounts_loop e (a # as) =
     (case SyncAccount e a of
        Some err \<Rightarrow> (Some err, [CallSyncAccount a, LogErrorf (''Error updating accounts: '' @ err)])
      | None \<Rightarrow> (case Accounts_loop e as of (r, t) \<Rightarrow> (r, CallSyncAccount a # t)))"

definition Accounts :: "sync_env \<Rightarrow> FactoryClient \<Rightarrow> string option \<times> sync_effect list" where
  "Accounts e c =
     (case FetchAccounts e c of
        Inl err \<Rightarrow> (Some err, [CallFetchAccounts, LogErrorf (''Error parsing accounts: '' @ err)])
      | Inr result \<Rightarrow>
          if \<not> ResSuccess result
          then (Some (ErrorMessage result),
                [CallFetchAccounts, LogErrorf (''Error fetching accounts: '' @ ErrorMessage result)])
          else (case Accounts_loop e (Entries result) of (r, t) \<Rightarrow> (r, CallFetchAccounts # t)))"

fun SigningKeys_loop ::
  "sync_env \<Rightarrow> factory \<Rightarrow> Keypair list \<Rightarrow> string option \<times> factory \<times> sync_effect list" where
  "SigningKeys_loop e db [] = (None, db, [])"
| "SigningKeys_loop e db (k # ks) =
     (case GetKeypairByPublicID e db (KeypairAuthorityID k) (KeypairKeyID k) of
        Inr found \<Rightarrow>
          (case SigningKeys_loop e db ks of
             (r, db', t) \<Rightarrow>
               (r, db', CallGetKeypairByPublicID (KeypairAuthorityID k) (KeypairKeyID k) # t))
      | Inl notFound \<Rightarrow>
          (case SyncKeypair e k db of
             (Some err, db1) \<Rightarrow>
               (Some err, db1,
                [CallGetKeypairByPublicID (KeypairAuthorityID k) (KeypairKeyID k),
                 CallSyncKeypair k, LogErrorf (''Error updating keypairs: '' @ err)])
           | (None, db1) \<Rightarrow>
               (let setting = Setting (GenerateAuthKey e (KeypairAuthorityID k) (KeypairKeyID k))
                                (AuthKeyHash k) in
                case PutSetting e setting db1 of
                  (Some err, db2) \<Rightarrow>
                    (Some err, db2,
                     [CallGetKeypairByPublicID (KeypairAuthorityID k) (KeypairKeyID k),
                      CallSyncKeypair k, CallPutSetting setting,
                      LogErrorf (''Error saving keypair auth: '' @ err)])
                | (None, db2) \<Rightarrow>
                    (case SigningKeys_loop e db2 ks of
                       (r, db', t) \<Rightarrow>
                         (r, db',
                          [CallGetKeypairByPublicID (KeypairAuthorityID k) (KeypairKeyID k),
                           CallSyncKeypair k, CallPutSetting setting] @ t)))))"

definition SigningKeys ::
  "sync_env \<Rightarrow> FactoryClient \<Rightarrow> factory \<Rightarrow> string option \<times> factory \<times> sync_effect list" where
  "SigningKeys e c db =
     (case jsonMarshal e (KeyStoreSecret e) of
        Inl err \<Rightarrow> (Some err, db, [LogErrorf (''Error with keystore secret: '' @ err)])
      | Inr data \<Rightarrow>
          (case FetchSigningKeys e c data of
             Inl err \<Rightarrow>
               (Some err, db,
                [CallFetchSigningKeys data, LogErrorf (''Error parsing signing-keys: '' @ err)])
           | Inr result \<Rightarrow>
               if \<not> ResSuccess result
               then (Some ''Error fetching signing keys'', db,
                     [CallFetchSigningKeys data, LogErrorf ''Error fetching signing-keys''])
               else (case SigningKeys_loop e db (Entries result) of
                       (r, db', t) \<Rightarrow> (r, db', CallFetchSigningKeys data # t))))"

fun Models_loop :: "sync_env \<Rightarrow> Model list \<Rightarrow> string option \<times> sync_effect list" where
  "Models_loop e [] = (None, [])"
| "Models_loop e (m # ms) =
     (case SyncModel e m of
        Some err \<Rightarrow> (Some err, [CallSyncModel m, LogErrorf (''Error updating models: '' @ err)])
      | None \<Rightarrow> (case Models_loop e ms of (r, t) \<Rightarrow> (r, CallSyncModel m # t)))"

definition Models :: "sync_env \<Rightarrow> FactoryClient \<Rightarrow> string option \<times> sync_effect list" where
  "Models e c =
     (case FetchModels e c of
        Inl err \<Rightarrow> (Some err, [CallFetchModels, LogErrorf (''Error parsing models: '' @ err)])
      | Inr result \<Rightarrow>
          if \<not> ResSuccess result
          then (Some (ErrorMessage result),
                [CallFetchModels, LogErrorf (''Error fetching models: '' @ ErrorMessage result)])
          else (case Models_loop e (Entries result) of (r, t) \<Rightarrow> (r, CallFetchModels # t)))"

fun SigningLogs_loop ::
  "sync_env \<Rightarrow> FactoryClient \<Rightarrow> factory \<Rightarrow> SigningLog list \<Rightarrow> factory \<times> sync_effect list" where
  "SigningLogs_loop e c db [] = (db, [])"
| "SigningLogs_loop e c db (l # ls) =
     (case SendSigningLog e c l of
        (success, err) \<Rightarrow>
          if err \<noteq> None \<or> \<not> success
          then (case SigningLogs_loop e c db ls of
                  (db', t) \<Rightarrow> (db', CallSendSigningLog l False # t))
          else (case SyncUpdateSigningLog e (ID l) db of
                  (Some err2, db1) \<Rightarrow>
                    (case SigningLogs_loop e c db1 ls of
                       (db', t) \<Rightarrow>
                         (db', [CallSendSigningLog l True, CallSyncUpdateSigningLog (ID l),
                                LogErrorf (''Error marking signing logs: '' @ err2)] @ t))
                | (None, db1) \<Rightarrow>
                    (case SigningLogs_loop e c db1 ls of
                       (db', t) \<Rightarrow>
                         (db', [CallSendSigningLog l True, CallSyncUpdateSigningLog (ID l)] @ t))))"

definition SigningLogs ::
  "sync_env \<Rightarrow> FactoryClient \<Rightarrow> factory \<Rightarrow> string option \<times> factory \<times> sync_effect list" where
  "SigningLogs e c db =
     (case SyncSigningLog e db of
        Inl err \<Rightarrow>
          (Some err, db,
           [CallSyncSigningLog, LogErrorf (''Error fetching unsynced signing logs: '' @ err)])
      | Inr logs \<Rightarrow>
          (case SigningLogs_loop e c db logs of
             (db', t) \<Rightarrow> (None, db', CallSyncSigningLog # t)))"

fun TestLogs_loop ::
  "sync_env \<Rightarrow> FactoryClient \<Rightarrow> factory \<Rightarrow> TestLog list \<Rightarrow> factory \<times> sync_effect list" where
  "TestLogs_loop e c db [] = (db, [])"
| "TestLogs_loop e c db (l # ls) =
     (case SendTestLog e c l of
        (success, err) \<Rightarrow>
          if err \<noteq> None \<or> \<not> success
          then (case TestLogs_loop e c db ls of
                  (db', t) \<Rightarrow> (db', CallSendTestLog l False # t))
          else (case SyncDeleteTestLog e (TestLogID l) db of
                  (Some err2, db1) \<Rightarrow>
                    (case TestLogs_loop e c db1 ls of
                       (db', t) \<Rightarrow>
                         (db', [CallSendTestLog l True, CallSyncDeleteTestLog (TestLogID l),
                                LogErrorf (''Error deleting test log: '' @ err2)] @ t))
                | (None, db1) \<Rightarrow>
                    (case TestLogs_loop e c db1 ls of
                       (db', t) \<Rightarrow>
                         (db', [CallSendTestLog l True, CallSyncDeleteTestLog (TestLogID l)] @ t))))"

definition TestLogs ::
  "sync_env \<Rightarrow> FactoryClient \<Rightarrow> factory \<Rightarrow> string option \<times> factory \<times> sync_effect list" where
  "TestLogs e c db =
     (case SyncListTestLogs e db of
        Inl err \<Rightarrow>
          (Some err, db,
           [CallSyncListTestLogs, LogErrorf (''Error fetching unsynced test logs: '' @ err)])
      | Inr logs \<Rightarrow>
          (case TestLogs_loop e c db logs of
             (db', t) \<Rightarrow> (None, db', CallSyncListTestLogs # t)))"

text \<open>
  The scheduler runs \<open>SigningLogs\<close> again and again; \<open>SigningLogs_runs\<close> is a sequence
  of runs, one environment per run, each run starting from the database the run before
  left. It returns the database and the effects of all the runs.
\<close>

fun SigningLogs_runs ::
  "sync_env list \<Rightarrow> FactoryClient \<Rightarrow> factory \<Rightarrow> factory \<times> sync_effect list" where
  "SigningLogs_runs [] c db = (db, [])"
| "SigningLogs_runs (e # es) c db =
     (case SigningLogs e c db of
        (r, db1, t) \<Rightarrow> (case SigningLogs_runs es c db1 of (db', t') \<Rightarrow> (db', t @ t')))"

section \<open>Notions used to state the facts\<close>

text \<open>
  None of the following is part of the program. \<open>resolvedSerial\<close> is the value of
  \<open>headers["serial"]\<close> when line 238 tests it: the header when that is a non-empty
  string, else the \<open>serial\<close> key of the body; a header that is not a string is kept, it
  makes line 228 panic. \<open>finalHeaders\<close> is the header map handed to \<open>asserts.Assemble\<close>
  for serial \<open>s\<close> and maximum revision \<open>m\<close>. \<open>duplicate_line\<close> is the log line of a
  detected duplicate, \<open>newSigningLog\<close> the log entry \<open>Serial\<close> starts from, and
  \<open>no_dup e\<close> answers as \<open>CheckForDuplicate e\<close> does, but never reports a duplicate.
\<close>

definition resolvedSerial :: "env \<Rightarrow> Assertion \<Rightarrow> iface option" where
  "resolvedSerial e a =
     (case Headers a ''serial'' of
        None \<Rightarrow> yamlUnmarshal e (Body a) ''serial''
      | Some (IString s) \<Rightarrow> if s = [] then yamlUnmarshal e (Body a) ''serial'' else Some (IString s)
      | Some v \<Rightarrow> Some v)"

definition finalHeaders :: "env \<Rightarrow> Assertion \<Rightarrow> string \<Rightarrow> 64 word \<Rightarrow> headers" where
  "finalHeaders e a s m =
     (let h = (serialHeaders e a)(''serial'' \<mapsto> IString s, ''revision'' \<mapsto> IString (Sprintf_d (m + 1)))
      in if length (Body a) > 0 then h(''body-length'' := Headers a ''body-length'') else h)"

definition duplicate_line :: effect where
  "duplicate_line = LogMessage ''SIGN'' ''duplicate-assertion''
     ''The serial number and/or device-key have already been used to sign a device''"

definition newSigningLog :: "Assertion \<Rightarrow> SigningLog" where
  "newSigningLog assertion =
     \<lparr>ID = 0, Make = HeaderString assertion ''brand-id'', Model = HeaderString assertion ''model'',
      SerialNumber = [], Fingerprint = SignKeyID assertion, Revision = 0\<rparr>"

definition no_dup :: "env \<Rightarrow> SigningLog \<Rightarrow> string + (bool \<times> 64 word)" where
  "no_dup e l = (case CheckForDuplicate e l of Inl err \<Rightarrow> Inl err | Inr (d, m) \<Rightarrow> Inr (False, m))"

text \<open>
  The effects that the stages of \<open>Serial\<close> can have: those of the steps before the
  conversion, those of the conversion, and those of signing and persisting.
\<close>

definition front_effect :: "effect \<Rightarrow> bool" where
  "front_effect x =
     (case x of
        LogMessage a b c \<Rightarrow> True
      | BodyClose \<Rightarrow> True
      | CallValidateDeviceNonce n \<Rightarrow> True
      | CallFindModel b m k \<Rightarrow> True
      | CallGetSubstoreModel b m s \<Rightarrow> True
      | _ \<Rightarrow> False)"

definition conversion_effect :: "effect \<Rightarrow> bool" where
  "conversion_effect x =
     (case x of
        LogMessage a b c \<Rightarrow> True
      | CallCheckForDuplicate l \<Rightarrow> True
      | CallAssemble h b c s \<Rightarrow> True
      | _ \<Rightarrow> False)"

definition sign_effect :: "effect \<Rightarrow> bool" where
  "sign_effect x =
     (case x of
        LogMessage a b c \<Rightarrow> True
      | CallSignAssertion t h b a k s \<Rightarrow> True
      | CallCreateSigningLog l \<Rightarrow> True
      | SetHeader k v \<Rightarrow> True
      | WriteHeader n \<Rightarrow> True
      | WriteAssertion a \<Rightarrow> True
      | _ \<Rightarrow> False)"

text \<open>
  A stage \<open>stops\<close> when it returns a response having had only effects of the steps before
  the conversion; it \<open>reaches\<close> the conversion with a model whose key is active when it
  goes on as \<open>Serial_convert\<close> does after such effects.
\<close>

definition stops :: "(ErrorResponse, ErrorResponse) step \<Rightarrow> bool" where
  "stops m \<longleftrightarrow> (\<exists>resp. fst m = Inl (Return resp)) \<and> list_all front_effect (snd m)"

definition reaches ::
  "env \<Rightarrow> (ErrorResponse, ErrorResponse) step \<Rightarrow> Assertion \<Rightarrow> Model \<Rightarrow> effect list \<Rightarrow> bool" where
  "reaches e m assertion model pre \<longleftrightarrow>
     KeyActive model \<and> list_all front_effect pre \<and>
     fst m = fst (Serial_convert e assertion model (newSigningLog assertion)) \<and>
     snd m = pre @ snd (Serial_convert e assertion model (newSigningLog assertion))"

text \<open>
  The resolution as the specification words it: the from-model with the sub-store's
  override applied, that is, carrying the sub-store's model name.
\<close>

definition overrides_applied :: "Substore \<Rightarrow> Model" where
  "overrides_applied sub = (FromModel sub)\<lparr>Name := ModelName sub\<rparr>"

section \<open>Concrete requests and environments\<close>

text \<open>
  Modelled from the spec: example values of the error variables of package \<open>response\<close>,
  which is not among the sources. The code of each is the name of its error kind in the
  spec's taxonomy; \<open>generate-nonce\<close> names the one the taxonomy leaves out. They are
  used at the concrete inputs below only; the theorems hold for every value of the
  variables.
\<close>

definition example_response :: "errname \<Rightarrow> ErrorResponse" where
  "example_response n =
     \<lparr>Success = False,
      Code = (case n of
                ErrorInvalidAPIKey \<Rightarrow> ''invalid-api-key''
              | ErrorEmptyData \<Rightarrow> ''empty-data''
              | ErrorInvalidAssertion \<Rightarrow> ''invalid-assertion''
              | ErrorInvalidType \<Rightarrow> ''invalid-type''
              | ErrorInvalidSecondType \<Rightarrow> ''invalid-second-type''
              | ErrorInvalidNonce \<Rightarrow> ''invalid-nonce''
              | ErrorInvalidModel \<Rightarrow> ''invalid-model''
              | ErrorInvalidModelSubstore \<Rightarrow> ''invalid-model-substore''
              | ErrorInactiveModel \<Rightarrow> ''inactive-model''
              | ErrorEmptySerial \<Rightarrow> ''empty-serial''
              | ErrorDuplicateAssertion \<Rightarrow> ''duplicate-assertion''
              | ErrorCreateAssertion \<Rightarrow> ''create-assertion''
              | ErrorGenerateNonce \<Rightarrow> ''generate-nonce''),
      Message = [], StatusCode = 400\<rparr>"

text \<open>
  The model \<open>(acme, rpi)\<close> with API key \<open>K\<close> and an active keypair, a sub-store that
  re-homes serial \<open>SN2\<close> of \<open>(acme, rpi-alt)\<close> to it, and a serial-request with given
  headers and body.
\<close>

definition rpi :: Model where
  "rpi = \<lparr>BrandID = ''acme'', Name = ''rpi'', APIKey = ''K'', AuthorityID = ''acme'',
          KeyID = ''abc'', SealedKey = ''sealed'', KeyActive = True\<rparr>"

definition pivot :: Substore where
  "pivot = \<lparr>FromModel = rpi, Store = ''substore'', ModelName = ''rpi-pivot''\<rparr>"

definition req_headers :: "string \<Rightarrow> (string \<times> iface) list" where
  "req_headers m =
     [(''type'', IString ''serial-request''), (''brand-id'', IString ''acme''),
      (''model'', IString m), (''request-id'', IString ''N''),
      (''device-key'', IString ''DK''), (''sign-key-sha3-384'', IString ''FP'')]"

definition serial_request :: "(string \<times> iface) list \<Rightarrow> string \<Rightarrow> Assertion" where
  "serial_request hs b =
     \<lparr>TypeName = ''serial-request'', Headers = map_of hs, Body = b, SignKeyID = ''FP'',
      Content = ''content'', Signature = ''signature''\<rparr>"

definition request_SN1 :: Assertion where
  "request_SN1 = serial_request ((''serial'', IString ''SN1'') # req_headers ''rpi'') []"

text \<open>
  Requests without a serial header: one whose body is the YAML document \<open>serial: SN9\<close>,
  one whose body gives the serial as a number, and one with an empty body; a request
  for the re-homed device; and a request for a model that no table knows.
\<close>

definition request_yaml :: Assertion where
  "request_yaml = serial_request (req_headers ''rpi'') ''serial: SN9''"

definition request_yaml_number :: Assertion where
  "request_yaml_number = serial_request (req_headers ''rpi'') ''serial: 123''"

definition request_no_serial :: Assertion where
  "request_no_serial = serial_request (req_headers ''rpi'') []"

definition request_pivot :: Assertion where
  "request_pivot = serial_request ((''serial'', IString ''SN2'') # req_headers ''rpi-alt'') []"

definition request_unknown :: Assertion where
  "request_unknown = serial_request ((''serial'', IString ''SN1'') # req_headers ''unknown'') []"

text \<open>
  An environment in which everything works: the request body holds the one assertion
  \<open>a\<close>, the nonce \<open>N\<close> is valid, the signing log is empty, and the YAML body
  \<open>serial: SN9\<close> parses to that key, the body \<open>serial: 123\<close> to a number.
\<close>

definition env0 :: "Assertion \<Rightarrow> env" where
  "env0 a =
     \<lparr>response = example_response,
      JSONHeader = ''application/json'',
      MediaType = ''application/x.ubuntu.assertion'',
      CheckModelAPI = (\<lambda>r. case ReqHeader r ''api-key'' of
                              None \<Rightarrow> Inl ''no api key''
                            | Some k \<Rightarrow> if k = ''K'' \<or> k = ''K2'' then Inr k else Inl ''unknown api key''),
      Decode = (\<lambda>r n. if n = 0 then Decoded a else EOF),
      DeleteExpiredDeviceNonces = None,
      CreateDeviceNonce = Inr \<lparr>Nonce = ''N''\<rparr>,
      ValidateDeviceNonce = (\<lambda>n. if n = ''N'' then None else Some ''nonce not found''),
      FindModel = (\<lambda>b m k. if b = ''acme'' \<and> m = ''rpi'' \<and> k = ''K'' then (rpi, None)
                            else (rpi\<lparr>Name := [], KeyActive := False\<rparr>, Some ''no rows'')),
      GetSubstoreModel = (\<lambda>b m s. if b = ''acme'' \<and> m = ''rpi-alt'' \<and> s = ''SN2'' then Inr pivot
                                   else Inl ''no rows''),
      CheckForDuplicate = (\<lambda>l. Inr (False, 0)),
      CreateSigningLog = (\<lambda>l. None),
      SignAssertion = (\<lambda>t h b au k s. Inr \<lparr>TypeName = t, Headers = h, Body = b, SignKeyID = k,
                                            Content = ''signed content'', Signature = ''signed''\<rparr>),
      Assemble = (\<lambda>h b c s. Inr \<lparr>TypeName = ''serial'', Headers = h, Body = b, SignKeyID = ''FP'',
                                   Content = c, Signature = s\<rparr>),
      yamlUnmarshal = (\<lambda>b. if b = ''serial: SN9'' then [''serial'' \<mapsto> IString ''SN9'']
                            else if b = ''serial: 123'' then [''serial'' \<mapsto> IInt 123]
                            else Map.empty),
      Now = ''2018-01-01T00:00:00Z'',
      Encode = (\<lambda>a. None)\<rparr>"

definition req0 :: Request where
  "req0 = \<lparr>ReqHeader = [''api-key'' \<mapsto> ''K''], ReqBody = []\<rparr>"

section \<open>Facts about the steps\<close>

lemmas example_defs = env0_def req0_def request_SN1_def request_yaml_def request_yaml_number_def
  request_no_serial_def request_pivot_def request_unknown_def serial_request_def req_headers_def rpi_def pivot_def
  example_response_def

lemma fst_returns [simp]: "fst (returns r t) = Inl (Return r)" by (simp add: returns_def)
lemma snd_returns [simp]: "snd (returns r t) = t" by (simp add: returns_def)
lemma fst_goOn [simp]: "fst (goOn x t) = Inr x" by (simp add: goOn_def)
lemma snd_goOn [simp]: "snd (goOn x t) = t" by (simp add: goOn_def)
lemma fst_andThen: "fst (andThen m f) = (case fst m of Inl r \<Rightarrow> Inl r | Inr x \<Rightarrow> fst (f x))"
  by (cases m) (auto simp: andThen_def split: sum.splits prod.splits)
lemma snd_andThen: "snd (andThen m f) = (case fst m of Inl r \<Rightarrow> snd m | Inr x \<Rightarrow> snd m @ snd (f x))"
  by (cases m) (auto simp: andThen_def split: sum.splits prod.splits)
lemma fst_deferred [simp]: "fst (deferred d m) = fst m" by (simp add: deferred_def split: prod.splits)
lemma snd_deferred [simp]: "snd (deferred d m) = snd m @ d" by (simp add: deferred_def split: prod.splits)
lemma fst_leave: "fst (leave m) = (case fst m of Inl r \<Rightarrow> r | Inr x \<Rightarrow> Return x)"
  by (cases m) (auto simp: leave_def split: sum.splits prod.splits)
lemma snd_leave [simp]: "snd (leave m) = snd m"
  by (cases m) (auto simp: leave_def split: sum.splits prod.splits)


lemma Serial_unfold:
  "Serial e r = leave (
     andThen
       (case CheckModelAPI e r of
          Inl err \<Rightarrow>
            returns (response e ErrorInvalidAPIKey)
              [LogMessage ''SIGN'' (Code (response e ErrorInvalidAPIKey))
                 (Message (response e ErrorInvalidAPIKey))]
        | Inr apiKey \<Rightarrow> goOn apiKey [])
     (\<lambda>apiKey. deferred [BodyClose] (
     andThen
       (case Decode e r 0 of
          EOF \<Rightarrow>
            returns (response e ErrorEmptyData)
              [LogMessage ''SIGN'' ''invalid-assertion'' (Message (response e ErrorEmptyData))]
        | DecodeError err \<Rightarrow>
            returns \<lparr>Success = False, Code = Code (response e ErrorInvalidAssertion),
                     Message = err, StatusCode = StatusBadRequest\<rparr>
              [LogMessage ''SIGN'' ''invalid-assertion'' err]
        | Decoded assertion \<Rightarrow> goOn assertion [])
     (\<lambda>assertion.
     andThen
       (case Decode e r 1 of
          DecodeError err \<Rightarrow>
            returns \<lparr>Success = False, Code = Code (response e ErrorInvalidAssertion),
                     Message = err, StatusCode = StatusBadRequest\<rparr>
              [LogMessage ''SIGN'' ''invalid-assertion'' err]
        | EOF \<Rightarrow> goOn None []
        | Decoded m \<Rightarrow> goOn (Some m) [])
     (\<lambda>modelAssert.
     andThen
       (case (case Decode e r 2 of
                EOF \<Rightarrow> None
              | DecodeError err \<Rightarrow> Some err
              | Decoded x \<Rightarrow> Some ''unexpected assertion in the request stream'') of
          Some err \<Rightarrow>
            returns \<lparr>Success = False, Code = Code (response e ErrorInvalidAssertion),
                     Message = err, StatusCode = StatusBadRequest\<rparr>
              [LogMessage ''SIGN'' (Code (response e ErrorInvalidAssertion)) err]
        | None \<Rightarrow> goOn () [])
     (\<lambda>_. Serial_checks e assertion modelAssert apiKey))))))"
  unfolding Serial_def Serial_checks_def Serial_resolve_def Serial_convert_def Serial_sign_def
  by (rule refl)



section \<open>The nonce handler\<close>

text \<open>
  C5, as the code has it. For every \<open>RequestID\<close> call with a valid API key, a failure
  of the deletion of the expired nonce rows blocks issuance: the handler returns
  \<open>response.ErrorGenerateNonce\<close>, it does not call \<open>CreateDeviceNonce\<close> and it writes
  no request id. When the deletion and the creation both succeed, the fresh nonce is
  written and the handler returns success.
\<close>

theorem RequestID_sweep_failure_blocks:
  "CheckModelAPI e r = Inr apiKey \<Longrightarrow>
     (DeleteExpiredDeviceNonces e = Some err \<longrightarrow>
        fst (RequestID e r) = response e ErrorGenerateNonce \<and>
        CallCreateDeviceNonce \<notin> set (snd (RequestID e r)) \<and>
        (\<forall>ok n. WriteRequestID ok n \<notin> set (snd (RequestID e r)))) \<and>
     (DeleteExpiredDeviceNonces e = None \<and> CreateDeviceNonce e = Inr nonce \<longrightarrow>
        Success (fst (RequestID e r)) \<and>
        WriteRequestID True (Nonce nonce) \<in> set (snd (RequestID e r)))"
  by (auto simp: RequestID_def formatRequestIDResponse_def)

theorem RequestID_sweep_failure_blocks_witness:
  "CheckModelAPI (env0 request_SN1\<lparr>DeleteExpiredDeviceNonces := Some ''database is locked''\<rparr>) req0
     = Inr ''K'' \<and>
   fst (RequestID (env0 request_SN1\<lparr>DeleteExpiredDeviceNonces := Some ''database is locked''\<rparr>) req0)
     = example_response ErrorGenerateNonce \<and>
   CallCreateDeviceNonce
     \<notin> set (snd (RequestID (env0 request_SN1\<lparr>DeleteExpiredDeviceNonces := Some ''database is locked''\<rparr>) req0)) \<and>
   CheckModelAPI (env0 request_SN1) req0 = Inr ''K'' \<and>
   Success (fst (RequestID (env0 request_SN1) req0)) \<and>
   WriteRequestID True ''N'' \<in> set (snd (RequestID (env0 request_SN1) req0))"
proof -
  let ?e = "env0 request_SN1\<lparr>DeleteExpiredDeviceNonces := Some ''database is locked''\<rparr>"
  have k: "CheckModelAPI ?e req0 = Inr ''K''"
    and k0: "CheckModelAPI (env0 request_SN1) req0 = Inr ''K''"
    by (simp_all add: env0_def req0_def)
  from RequestID_sweep_failure_blocks [OF k, of "''database is locked''"]
  have "fst (RequestID ?e req0) = example_response ErrorGenerateNonce \<and>
        CallCreateDeviceNonce \<notin> set (snd (RequestID ?e req0))"
    by (simp add: env0_def)
  moreover from RequestID_sweep_failure_blocks [OF k0, of _ "\<lparr>Nonce = ''N''\<rparr>"]
  have "Success (fst (RequestID (env0 request_SN1) req0)) \<and>
        WriteRequestID True ''N'' \<in> set (snd (RequestID (env0 request_SN1) req0))"
    by (simp add: env0_def)
  ultimately show ?thesis using k k0 by simp
qed

text \<open>
  C5 as stated fails: with a valid API key and a failing deletion of the expired
  nonces, the handler returns the error \<open>generate-nonce\<close>, not success, and writes no
  request id.
\<close>

theorem RequestID_sweep_failure_counterexample:
  "CheckModelAPI (env0 request_SN1\<lparr>DeleteExpiredDeviceNonces := Some ''database is locked''\<rparr>) req0
     = Inr ''K'' \<and>
   \<not> Success (fst (RequestID (env0 request_SN1\<lparr>DeleteExpiredDeviceNonces := Some ''database is locked''\<rparr>) req0)) \<and>
   Code (fst (RequestID (env0 request_SN1\<lparr>DeleteExpiredDeviceNonces := Some ''database is locked''\<rparr>) req0))
     = ''generate-nonce'' \<and>
   snd (RequestID (env0 request_SN1\<lparr>DeleteExpiredDeviceNonces := Some ''database is locked''\<rparr>) req0)
     = [SetHeader ''Content-Type'' ''application/json'', CallDeleteExpiredDeviceNonces,
        LogMessage ''REQUESTID'' ''delete-expired-nonces'' ''database is locked'']"
  by (simp add: RequestID_def env0_def req0_def example_response_def)

end
